theory Spec2Isabelle
  imports Main "HOL-Library.Word"
begin

unbundle bit_operations_syntax

section \<open>The wasm plugin of \<open>packages/wasm/src/index.ts\<close>\<close>

subsection \<open>Bytes, JavaScript strings and errors\<close>

text \<open>
  A Node \<open>Buffer\<close> is a sequence of bytes; a JavaScript string is a sequence of 16-bit
  code units. A string literal of the source is written as an Isabelle string and turned
  into code units by \<open>js\<close>.
\<close>

type_synonym bytes = "8 word list"
type_synonym js_string = "16 word list"

definition js :: "string \<Rightarrow> js_string" where
  "js s = map of_char s"

text \<open>
  What can be thrown or rejected with: an error of the surroundings (the file system, a
  decoder), handed on as it is, or the error raised through \<open>this.error(message)\<close>.
\<close>

datatype js_error = HostError js_string | PluginError js_string

subsection \<open>The binary text encoding and base64\<close>

text \<open>
  \<open>buffer.toString('binary')\<close>: every byte becomes the code unit of the same value.
  \<open>Buffer.from(code, 'binary')\<close>: every code unit is cut down to its low eight bits.
\<close>

definition toString_binary :: "bytes \<Rightarrow> js_string" where
  "toString_binary buffer = map ucast buffer"

definition Buffer_from_binary :: "js_string \<Rightarrow> bytes" where
  "Buffer_from_binary code = map ucast code"

text \<open>
  \<open>buffer.toString('base64')\<close> is the standard base64 encoding with padding: three
  bytes give four characters of the alphabet below, a rest of one or two bytes is padded
  with \<open>=\<close>.
\<close>

definition base64_alphabet :: string where
  "base64_alphabet = ''ABCDEFGHIJKLMNOPQRSTUVWXYZabcdefghijklmnopqrstuvwxyz0123456789+/''"

definition base64_char :: "8 word \<Rightarrow> 16 word" where
  "base64_char x = of_char (base64_alphabet ! unat (x AND 63))"

definition base64_pad :: "16 word" where
  "base64_pad = of_char CHR ''=''"

fun toString_base64 :: "bytes \<Rightarrow> js_string" where
  "toString_base64 [] = []"
| "toString_base64 [a] =
     [base64_char (drop_bit 2 a), base64_char (push_bit 4 (a AND 3)), base64_pad, base64_pad]"
| "toString_base64 [a, b] =
     [base64_char (drop_bit 2 a),
      base64_char (push_bit 4 (a AND 3) OR drop_bit 4 b),
      base64_char (push_bit 2 (b AND 15)),
      base64_pad]"
| "toString_base64 (a # b # c # rest) =
     base64_char (drop_bit 2 a) #
     base64_char (push_bit 4 (a AND 3) OR drop_bit 4 b) #
     base64_char (push_bit 2 (b AND 15) OR drop_bit 6 c) #
     base64_char (c AND 63) #
     toString_base64 rest"

subsection \<open>Options and the state of one plugin instance\<close>

text \<open>
  The options object. \<open>opt_sync\<close>, \<open>opt_maxFileSize\<close> and \<open>opt_publicPath\<close> are the
  fields that \<open>wasm\<close> destructures; \<open>opt_limit\<close> is the field \<open>limit\<close> that the interface
  \<open>RollupWasmOptions\<close> declares. \<open>None\<close> is a field that is not there. Sizes are whole
  numbers.
\<close>

record options =
  opt_sync :: "js_string list option"
  opt_maxFileSize :: "int option"
  opt_limit :: "int option"
  opt_publicPath :: "js_string option"

text \<open>
  What the plugin uses and does not define: \<open>path.resolve\<close>, the hexadecimal SHA-1 digest,
  and the two promisified calls of the file system, each with the error it rejects with or
  the value it resolves to.
\<close>

record host =
  path_resolve :: "js_string \<Rightarrow> js_string"
  sha1_hex :: "bytes \<Rightarrow> js_string"
  fsStat :: "js_string \<Rightarrow> js_error + nat"
  fsReadFile :: "js_string \<Rightarrow> js_error + bytes"

text \<open>The constants of the closure that \<open>wasm\<close> returns; \<open>copies\<close> is its mutable dictionary.\<close>

record plugin =
  syncFiles :: "js_string list"
  maxFileSize :: int
  publicPath :: "js_string"

type_synonym copies = "js_string \<rightharpoonup> js_string"

definition wasm :: "host \<Rightarrow> options \<Rightarrow> plugin" where
  "wasm h opts =
     \<lparr> syncFiles = map (path_resolve h) (case opt_sync opts of None \<Rightarrow> [] | Some s \<Rightarrow> s),
       maxFileSize = (case opt_maxFileSize opts of None \<Rightarrow> 14 * 1024 | Some m \<Rightarrow> m),
       publicPath = (case opt_publicPath opts of None \<Rightarrow> [] | Some p \<Rightarrow> p) \<rparr>"

definition initial_copies :: copies where
  "initial_copies = Map.empty"

subsection \<open>The hooks \<open>load\<close> and \<open>transform\<close>\<close>

text \<open>\<open>/\.wasm$/.test(id)\<close>: the identifier ends in \<open>.wasm\<close>.\<close>

definition test_wasm :: "js_string \<Rightarrow> bool" where
  "test_wasm ident = (5 \<le> length ident \<and> drop (length ident - 5) ident = js ''.wasm'')"

text \<open>\<open>Array.prototype.indexOf\<close>: the first position of the element, or \<open>-1\<close>.\<close>

fun indexOf :: "'a list \<Rightarrow> 'a \<Rightarrow> int" where
  "indexOf [] x = -1"
| "indexOf (y # ys) x =
     (if y = x then 0 else (let i = indexOf ys x in if i = -1 then -1 else i + 1))"

text \<open>
  \<open>load\<close> returns \<open>null\<close> (here \<open>None\<close>) for an identifier that does not match. Otherwise it
  waits for the size and the bytes of the file, fails when one of the two calls fails,
  and registers the file in \<open>copies\<close> under the condition of the source. Where both calls
  fail, the error of the first is taken.
\<close>

definition load :: "host \<Rightarrow> plugin \<Rightarrow> copies \<Rightarrow> js_string \<Rightarrow> js_error + (copies \<times> js_string option)" where
  "load h p copies ident =
     (if \<not> test_wasm ident then Inr (copies, None)
      else case fsStat h ident of
        Inl e \<Rightarrow> Inl e
      | Inr stats_size \<Rightarrow>
         (case fsReadFile h ident of
            Inl e \<Rightarrow> Inl e
          | Inr buffer \<Rightarrow>
             (let copies' =
                (if (maxFileSize p \<noteq> 0 \<and> int stats_size > maxFileSize p) \<or> maxFileSize p = 0
                 then (let hash = take 16 (sha1_hex h buffer)
                       in if indexOf (syncFiles p) ident = -1
                          then copies(ident \<mapsto> publicPath p @ hash @ js ''.wasm'')
                          else copies)
                 else copies)
              in Inr (copies', Some (toString_binary buffer)))))"

definition quoted :: "js_string \<Rightarrow> js_string" where
  "quoted s = js [CHR 0x27] @ s @ js [CHR 0x27]"

text \<open>A template substitution of a value that is a string or \<open>null\<close>.\<close>

definition subst_nullable :: "js_string option \<Rightarrow> js_string" where
  "subst_nullable v = (case v of None \<Rightarrow> js ''null'' | Some s \<Rightarrow> s)"

text \<open>\<open>${+isSync}\<close>: the boolean as a number.\<close>

definition subst_flag :: "bool \<Rightarrow> js_string" where
  "subst_flag b = (if b then js ''1'' else js ''0'')"

text \<open>The template of the module body, with its three substitutions.\<close>

definition module_template :: "js_string \<Rightarrow> js_string \<Rightarrow> js_string \<Rightarrow> js_string" where
  "module_template sync_text filepath_text src_text =
     js ''export default function(imports){return _loadWasmModule('' @ sync_text @ js '', ''
     @ filepath_text @ js '', '' @ src_text @ js '', imports)}''"

definition conflict_message :: js_string where
  "conflict_message = js ''non-inlined files can not be `sync`.''"

text \<open>
  \<open>transform\<close>: \<open>code && ...\<close> holds for a string that is not empty, and \<open>copies[id] ? ...\<close>
  for an entry that is there and not the empty string.
\<close>

definition transform :: "plugin \<Rightarrow> copies \<Rightarrow> js_string \<Rightarrow> js_string \<Rightarrow> js_error + js_string option" where
  "transform p copies code ident =
     (if code \<noteq> [] \<and> test_wasm ident then
        (let isSync = (indexOf (syncFiles p) ident \<noteq> -1);
             filepath = (case copies ident of
                           None \<Rightarrow> None
                         | Some d \<Rightarrow> if d \<noteq> [] then Some (quoted d) else None)
         in case (case filepath of
                    None \<Rightarrow> Inr (Some (quoted (toString_base64 (Buffer_from_binary code))))
                  | Some f \<Rightarrow> if isSync then Inl (PluginError conflict_message) else Inr None) of
              Inl e \<Rightarrow> Inl e
            | Inr src \<Rightarrow>
                Inr (Some (module_template (subst_flag isSync) (subst_nullable filepath)
                             (subst_nullable src))))
      else Inr None)"

text \<open>
  The host calls \<open>load\<close> for an identifier and hands the text it returns to \<open>transform\<close>,
  with the dictionary as \<open>load\<close> left it. The result is the dictionary and the module
  body, \<open>None\<close> where the plugin emitted none.
\<close>

definition load_then_transform ::
  "host \<Rightarrow> plugin \<Rightarrow> copies \<Rightarrow> js_string \<Rightarrow> js_error + (copies \<times> js_string option)" where
  "load_then_transform h p copies ident =
     (case load h p copies ident of
        Inl e \<Rightarrow> Inl e
      | Inr (copies', None) \<Rightarrow> Inr (copies', None)
      | Inr (copies', Some code) \<Rightarrow>
          (case transform p copies' code ident of
             Inl e \<Rightarrow> Inl e
           | Inr body \<Rightarrow> Inr (copies', body)))"

text \<open>
  The dictionaries that a build can hold: the empty one of \<open>Object.create(null)\<close>, and what
  a call of \<open>load\<close> that returned makes of one, on whatever file system.
\<close>

inductive registry :: "plugin \<Rightarrow> copies \<Rightarrow> bool" for p :: plugin where
  registry_initial: "registry p initial_copies"
| registry_load: "registry p copies \<Longrightarrow> load h p copies ident = Inr (copies', code)
     \<Longrightarrow> registry p copies'"

subsection \<open>The bootstrap \<open>_loadWasmModule\<close> of the banner\<close>

text \<open>
  The bootstrap is written against the WebAssembly interface, which it does not define.
  Its results are therefore the calls it makes: which function of the interface, on which
  arguments. \<open>source\<close> is what it passes as the first argument: a buffer, the \<open>undefined\<close>
  that the callback of a failed read gets, or the promise \<open>fetch(filepath)\<close>.
\<close>

datatype source = Buffer bytes | Undefined | Fetch js_string

text \<open>The four calls that return a promise.\<close>

datatype 'imp api_promise =
    Instantiate source 'imp
  | Compile source
  | InstantiateStreaming source 'imp
  | CompileStreaming source

text \<open>\<open>new WebAssembly.Module(buf)\<close>, and the two values the synchronous path returns.\<close>

datatype wasm_module = New_Module bytes

datatype 'imp wasm_value = Bare wasm_module | New_Instance wasm_module 'imp

text \<open>
  The promise of \<open>new Promise(...)\<close>: pending until the first call of \<open>resolve\<close> or \<open>reject\<close>;
  later calls change nothing. Resolved with a promise, it follows that promise.
\<close>

datatype 'imp new_promise = Pending | Rejected js_error | Resolved "'imp api_promise"

definition reject :: "js_error \<Rightarrow> 'imp new_promise \<Rightarrow> 'imp new_promise" where
  "reject e s = (case s of Pending \<Rightarrow> Rejected e | _ \<Rightarrow> s)"

definition resolve :: "'imp api_promise \<Rightarrow> 'imp new_promise \<Rightarrow> 'imp new_promise" where
  "resolve v s = (case s of Pending \<Rightarrow> Resolved v | _ \<Rightarrow> s)"

datatype 'imp returned =
    Value "'imp wasm_value"
  | Promise "'imp api_promise"
  | New_Promise "'imp new_promise"

text \<open>
  The surroundings of the bootstrap: the probe for Node, the outcome of reading
  \<open>path.resolve(__dirname, filepath)\<close>, and the two base64 decoders, which may throw.
\<close>

record runtime =
  isNode :: bool
  rt_readFile :: "js_string \<Rightarrow> js_error + bytes"
  rt_Buffer_from_base64 :: "js_string option \<Rightarrow> js_error + bytes"
  rt_atob :: "js_string option \<Rightarrow> js_error + js_string"

text \<open>Truthiness of a string or \<open>null\<close>, and of a number.\<close>

definition truthy_string :: "js_string option \<Rightarrow> bool" where
  "truthy_string v = (case v of None \<Rightarrow> False | Some s \<Rightarrow> s \<noteq> [])"

definition truthy_number :: "int \<Rightarrow> bool" where
  "truthy_number n = (n \<noteq> 0)"

text \<open>\<open>imports\<close> is an object, which is truthy, or is not given.\<close>

definition instantiateOrCompile :: "source \<Rightarrow> 'imp option \<Rightarrow> bool \<Rightarrow> 'imp api_promise" where
  "instantiateOrCompile src imports stream =
     (let instantiateFunc = (if stream then InstantiateStreaming else Instantiate);
          compileFunc = (if stream then CompileStreaming else Compile)
      in case imports of
           Some i \<Rightarrow> instantiateFunc src i
         | None \<Rightarrow> compileFunc src)"

text \<open>What a call of the interface does with the source: instantiate it, or compile it only.\<close>

datatype operation = Instantiation | Compilation

fun api_operation :: "'imp api_promise \<Rightarrow> operation" where
  "api_operation (Instantiate s i) = Instantiation"
| "api_operation (InstantiateStreaming s i) = Instantiation"
| "api_operation (Compile s) = Compilation"
| "api_operation (CompileStreaming s) = Compilation"

text \<open>The callback of \<open>fs.readFile\<close>: \<open>reject\<close> does not leave it, \<open>resolve\<close> is called in any case.\<close>

definition readFile_callback ::
  "'imp option \<Rightarrow> js_error option \<Rightarrow> source \<Rightarrow> 'imp new_promise \<Rightarrow> 'imp new_promise" where
  "readFile_callback imports error buffer s =
     (let s' = (case error of Some e \<Rightarrow> reject e s | None \<Rightarrow> s)
      in resolve (instantiateOrCompile buffer imports False) s')"

text \<open>The loop that copies the character codes of \<open>raw\<close> into the zeroed byte array.\<close>

function charCode_loop :: "js_string \<Rightarrow> bytes \<Rightarrow> nat \<Rightarrow> bytes" where
  "charCode_loop raw buf i =
     (if i < length raw then charCode_loop raw (buf[i := ucast (raw ! i)]) (i + 1) else buf)"
  by pat_completeness auto
termination
  by (relation "measure (\<lambda>(raw, buf, i). length raw - i)") auto

declare charCode_loop.simps [simp del]

text \<open>
  The payload as bytes: \<open>Buffer.from(src, 'base64')\<close> under Node, \<open>atob\<close> and the loop
  elsewhere. A decoder that throws ends the bootstrap with its error.
\<close>

definition decode_src :: "runtime \<Rightarrow> js_string option \<Rightarrow> js_error + bytes" where
  "decode_src rt src =
     (if isNode rt then rt_Buffer_from_base64 rt src
      else case rt_atob rt src of
             Inl e \<Rightarrow> Inl e
           | Inr raw \<Rightarrow>
               (let rawLength = length raw
                in Inr (charCode_loop raw (replicate rawLength 0) 0)))"

text \<open>
  \<open>_loadWasmModule(sync, filepath, src, imports)\<close>. \<open>sync\<close> is the number that \<open>transform\<close>
  wrote; \<open>filepath\<close> and \<open>src\<close> are strings or \<open>null\<close>. In the two branches that read
  \<open>filepath\<close> it is truthy, so a string.
\<close>

definition loadWasmModule ::
  "runtime \<Rightarrow> int \<Rightarrow> js_string option \<Rightarrow> js_string option \<Rightarrow> 'imp option \<Rightarrow> js_error + 'imp returned" where
  "loadWasmModule rt sync filepath src imports =
     (if truthy_string filepath \<and> isNode rt then
        Inr (New_Promise
          (case rt_readFile rt (the filepath) of
             Inl error \<Rightarrow> readFile_callback imports (Some error) Undefined Pending
           | Inr buffer \<Rightarrow> readFile_callback imports None (Buffer buffer) Pending))
      else if truthy_string filepath then
        Inr (Promise (instantiateOrCompile (Fetch (the filepath)) imports True))
      else case decode_src rt src of
        Inl e \<Rightarrow> Inl e
      | Inr buf \<Rightarrow>
          if truthy_number sync then
            (let module = New_Module buf
             in Inr (Value (case imports of Some i \<Rightarrow> New_Instance module i | None \<Rightarrow> Bare module)))
          else Inr (Promise (instantiateOrCompile (Buffer buf) imports False)))"

subsection \<open>A small build, for the concrete cases\<close>

definition example_host :: host where
  "example_host =
     \<lparr> path_resolve = (\<lambda>x. js ''/w/'' @ x),
       sha1_hex = (\<lambda>b. if b = [0, 97, 115, 109] then js ''1340712d77d3db3c79b4b0c1494df18615485480''
                        else if b = [] then js ''da39a3ee5e6b4b0d3255bfef95601890afd80709''
                        else js ''c6006650182737e2b09bada7fc0774812b802917''),
       fsStat = (\<lambda>f. if f = js ''/w/a.wasm'' then Inr 4
                      else if f = js ''/w/big.wasm'' then Inr 8
                      else if f = js ''/w/empty.wasm'' then Inr 0
                      else Inl (HostError (js ''ENOENT''))),
       fsReadFile = (\<lambda>f. if f = js ''/w/a.wasm'' then Inr [0, 97, 115, 109]
                          else if f = js ''/w/big.wasm'' then Inr [0, 97, 115, 109, 1, 0, 0, 0]
                          else if f = js ''/w/empty.wasm'' then Inr []
                          else Inl (HostError (js ''ENOENT''))) \<rparr>"

definition example_options :: "js_string list \<Rightarrow> int option \<Rightarrow> options" where
  "example_options s m =
     \<lparr> opt_sync = Some s, opt_maxFileSize = m, opt_limit = None,
       opt_publicPath = Some (js ''/assets/'') \<rparr>"

definition no_options :: options where
  "no_options =
     \<lparr> opt_sync = None, opt_maxFileSize = None, opt_limit = None, opt_publicPath = None \<rparr>"

definition sync_plugin :: plugin where
  "sync_plugin = wasm example_host (example_options [js ''big.wasm''] (Some 4))"

definition async_plugin :: plugin where
  "async_plugin = wasm example_host (example_options [] (Some 4))"

definition copy_all_plugin :: plugin where
  "copy_all_plugin = wasm example_host (example_options [js ''a.wasm''] (Some 0))"

definition example_runtime :: "bool \<Rightarrow> runtime" where
  "example_runtime node =
     \<lparr> isNode = node,
       rt_readFile = (\<lambda>f. if f = js ''/assets/c6006650182737e2.wasm''
                           then Inr [0, 97, 115, 109, 1, 0, 0, 0]
                           else Inl (HostError (js ''ENOENT''))),
       rt_Buffer_from_base64 = (\<lambda>s. if s = Some (js ''AGFzbQ=='') then Inr [0, 97, 115, 109]
                                     else if s = None then Inl (HostError (js ''TypeError''))
                                     else Inr []),
       rt_atob = (\<lambda>s. if s = Some (js ''AGFzbQ=='') then Inr [0, 97, 115, 109]
                       else Inl (HostError (js ''InvalidCharacterError''))) \<rparr>"

section \<open>Properties\<close>

subsection \<open>Auxiliary facts\<close>

lemmas example_defs = sync_plugin_def async_plugin_def copy_all_plugin_def wasm_def
  example_options_def example_host_def

lemmas text_defs = js_def quoted_def module_template_def subst_flag_def subst_nullable_def
  toString_binary_def Buffer_from_binary_def base64_char_def base64_pad_def base64_alphabet_def
  conflict_message_def

lemma indexOf_ge: "-1 \<le> indexOf xs x"
  by (induction xs) (auto simp: Let_def)

lemma indexOf_absent: "indexOf xs x = -1 \<longleftrightarrow> x \<notin> set xs"
proof (induction xs)
  case Nil
  show ?case by simp
next
  case (Cons y ys)
  have "-1 \<le> indexOf ys x" by (rule indexOf_ge)
  with Cons show ?case by (auto simp: Let_def)
qed

lemma ucast_byte_unit: "ucast (ucast (b :: 8 word) :: 16 word) = b"
  by (simp add: ucast_up_ucast_id is_up)

lemma binary_round_trip: "Buffer_from_binary (toString_binary P) = P"
  by (simp add: Buffer_from_binary_def toString_binary_def ucast_byte_unit map_idI)

lemma charCode_loop_eq:
  "i \<le> length raw \<Longrightarrow> length buf = length raw \<Longrightarrow>
   charCode_loop raw buf i = take i buf @ map ucast (drop i raw)"
proof (induction raw buf i rule: charCode_loop.induct)
  case (1 raw buf i)
  show ?case
  proof (cases "i < length raw")
    case True
    then have "charCode_loop raw buf i = charCode_loop raw (buf[i := ucast (raw ! i)]) (i + 1)"
      by (subst charCode_loop.simps) simp
    also have "\<dots> = take (i + 1) (buf[i := ucast (raw ! i)]) @ map ucast (drop (i + 1) raw)"
      using 1 True by simp
    also have "\<dots> = take i buf @ map ucast (drop i raw)"
      using True 1(3)
      by (simp add: take_Suc_conv_app_nth Cons_nth_drop_Suc [symmetric])
    finally show ?thesis .
  next
    case False
    with 1 show ?thesis by (subst charCode_loop.simps) simp
  qed
qed

lemma charCode_loop_all:
  "charCode_loop raw (replicate (length raw) 0) 0 = map ucast raw"
  using charCode_loop_eq [of 0 raw "replicate (length raw) 0"] by simp

lemma registry_not_sync:
  "registry p copies \<Longrightarrow> copies ident = Some d \<Longrightarrow> ident \<notin> set (syncFiles p)"
proof (induction arbitrary: ident d rule: registry.induct)
  case registry_initial
  then show ?case by (simp add: initial_copies_def)
next
  case (registry_load copies h k copies' code)
  then show ?case
    by (auto simp: load_def Let_def indexOf_absent split: if_splits sum.splits)
qed

lemma load_matched:
  assumes "test_wasm ident" "fsStat h ident = Inr sz" "fsReadFile h ident = Inr buffer"
  shows "load h p copies ident =
    Inr (if (maxFileSize p = 0 \<or> int sz > maxFileSize p) \<and> ident \<notin> set (syncFiles p)
         then copies(ident \<mapsto> publicPath p @ take 16 (sha1_hex h buffer) @ js ''.wasm'')
         else copies,
         Some (toString_binary buffer))"
  using assms by (auto simp: load_def Let_def indexOf_absent)

lemma toString_binary_Nil: "toString_binary buffer = [] \<longleftrightarrow> buffer = []"
  by (simp add: toString_binary_def)

lemma transform_inline:
  assumes "test_wasm ident" "code \<noteq> []" "copies ident = None \<or> copies ident = Some []"
  shows "transform p copies code ident =
    Inr (Some (module_template (if ident \<in> set (syncFiles p) then js ''1'' else js ''0'')
                 (js ''null'') (quoted (toString_base64 (Buffer_from_binary code)))))"
  using assms
  by (auto simp: transform_def Let_def indexOf_absent subst_flag_def subst_nullable_def)

lemma transform_copied:
  assumes "test_wasm ident" "code \<noteq> []" "copies ident = Some d" "d \<noteq> []"
  shows "transform p copies code ident =
    (if ident \<in> set (syncFiles p) then Inl (PluginError conflict_message)
     else Inr (Some (module_template (js ''0'') (quoted d) (js ''null''))))"
  using assms
  by (auto simp: transform_def Let_def indexOf_absent subst_flag_def subst_nullable_def)

lemma registry_entry_nonempty:
  "registry p copies \<Longrightarrow> copies ident = Some d \<Longrightarrow> d \<noteq> []"
proof (induction arbitrary: ident d rule: registry.induct)
  case registry_initial
  then show ?case by (simp add: initial_copies_def)
next
  case (registry_load copies h k copies' code)
  then show ?case
    by (fastforce simp: load_def Let_def js_def split: if_splits sum.splits)
qed

lemma example_load_big:
  "load example_host async_plugin initial_copies (js ''/w/big.wasm'') =
     Inr (initial_copies(js ''/w/big.wasm'' \<mapsto> js ''/assets/c6006650182737e2.wasm''),
          Some (toString_binary [0, 97, 115, 109, 1, 0, 0, 0]))"
  by (simp add: load_def test_wasm_def Let_def example_defs js_def)

lemma decode_src_node:
  "isNode rt \<Longrightarrow> decode_src rt src = rt_Buffer_from_base64 rt src"
  by (simp add: decode_src_def)

lemma decode_src_atob:
  "\<not> isNode rt \<Longrightarrow> rt_atob rt src = Inr raw \<Longrightarrow> decode_src rt src = Inr (map ucast raw)"
  by (simp add: decode_src_def Let_def charCode_loop_all)

lemma readFile_callback_error:
  "readFile_callback imports (Some e) buffer Pending = Rejected e"
  by (simp add: readFile_callback_def reject_def resolve_def)

lemma readFile_callback_ok:
  "readFile_callback imports None buffer Pending =
     Resolved (instantiateOrCompile buffer imports False)"
  by (simp add: readFile_callback_def reject_def resolve_def)

lemmas runtime_defs = example_runtime_def truthy_string_def truthy_number_def js_def

lemma transform_empty: "transform p copies [] ident = Inr None"
  by (simp add: transform_def)

lemma example_load_a:
  "load example_host async_plugin initial_copies (js ''/w/a.wasm'') =
     Inr (initial_copies, Some (toString_binary [0, 97, 115, 109]))"
  by (simp add: load_def test_wasm_def Let_def example_defs js_def)

lemma example_load_sync_big:
  "load example_host sync_plugin initial_copies (js ''/w/big.wasm'') =
     Inr (initial_copies, Some (toString_binary [0, 97, 115, 109, 1, 0, 0, 0]))"
  by (simp add: load_def test_wasm_def Let_def example_defs js_def)

subsection \<open>Assets in the sync set\<close>

text \<open>
  C1, as the code has it: an asset whose path is in the sync set and whose size exceeds a
  nonzero \<open>maxFileSize\<close> does not fail with the sync conflict error. In any build, \<open>load\<close>
  leaves the registry as it was and \<open>transform\<close> emits the inline module body with the sync
  flag \<open>1\<close>, no file path and the base64 of the file's bytes (no body at all for an empty
  file).
\<close>

theorem sync_asset_over_threshold_is_inlined:
  assumes "ident \<in> set (syncFiles p)" and "test_wasm ident"
    and "fsStat h ident = Inr sz" and "fsReadFile h ident = Inr buffer"
    and "maxFileSize p \<noteq> 0" and "int sz > maxFileSize p"
    and "registry p copies"
  shows "load_then_transform h p copies ident =
    Inr (copies,
         if buffer = [] then None
         else Some (module_template (js ''1'') (js ''null'') (quoted (toString_base64 buffer))))"
proof -
  have none: "copies ident = None"
    using registry_not_sync [OF assms(7)] assms(1) by (cases "copies ident") auto
  have l: "load h p copies ident = Inr (copies, Some (toString_binary buffer))"
    using load_matched [OF assms(2,3,4)] assms(1) by simp
  show ?thesis
  proof (cases "buffer = []")
    case True
    then show ?thesis
      by (simp add: load_then_transform_def l transform_def toString_binary_def)
  next
    case False
    then have "toString_binary buffer \<noteq> []" by (simp add: toString_binary_Nil)
    from transform_inline [OF assms(2) this, of copies p] none assms(1) False
    show ?thesis
      by (simp add: load_then_transform_def l binary_round_trip)
  qed
qed

text \<open>
  That such a build fails with \<open>non-inlined files can not be `sync`.\<close>, as the
  specification has it, is false for \<open>/w/big.wasm\<close>, of 8 bytes, in the
  sync set, with \<open>maxFileSize = 4\<close>: the asset is inlined.
\<close>

theorem sync_conflict_counterexample:
  "js ''/w/big.wasm'' \<in> set (syncFiles sync_plugin) \<and> maxFileSize sync_plugin = 4
   \<and> fsStat example_host (js ''/w/big.wasm'') = Inr 8
   \<and> load_then_transform example_host sync_plugin initial_copies (js ''/w/big.wasm'') =
       Inr (initial_copies,
            Some (module_template (js ''1'') (js ''null'') (quoted (js ''AGFzbQEAAAA=''))))"
  by (simp add: load_then_transform_def load_def transform_def test_wasm_def initial_copies_def
    Let_def example_defs text_defs)

theorem sync_asset_over_threshold_is_inlined_witness:
  "load_then_transform example_host sync_plugin initial_copies (js ''/w/big.wasm'') =
     Inr (initial_copies,
          Some (module_template (js ''1'') (js ''null'')
                  (quoted (toString_base64 [0, 97, 115, 109, 1, 0, 0, 0]))))"
proof -
  have a: "js ''/w/big.wasm'' \<in> set (syncFiles sync_plugin)"
    by (simp add: example_defs js_def)
  have b: "test_wasm (js ''/w/big.wasm'')" by (simp add: test_wasm_def js_def)
  have c: "fsStat example_host (js ''/w/big.wasm'') = Inr 8"
    by (simp add: example_host_def js_def)
  have d: "fsReadFile example_host (js ''/w/big.wasm'') = Inr [0, 97, 115, 109, 1, 0, 0, 0]"
    by (simp add: example_host_def js_def)
  have e: "maxFileSize sync_plugin \<noteq> 0" "int 8 > maxFileSize sync_plugin"
    by (simp_all add: example_defs)
  from sync_asset_over_threshold_is_inlined [OF a b c d e registry_initial]
  show ?thesis by simp
qed

subsection \<open>The binary text encoding\<close>

text \<open>
  C2: for every byte sequence \<open>P\<close>, decoding the binary text of \<open>P\<close> gives \<open>P\<close> back. For a
  file with the bytes \<open>P\<close>, \<open>load\<close> returns the binary text of \<open>P\<close>, decoding the text it
  returned gives the bytes of the file, and where the asset is inlined (the registry that
  \<open>load\<close> left has no destination for it) the literal that \<open>transform\<close> emits from that
  text is the base64 encoding of the bytes of the file.
\<close>

theorem binary_text_round_trip:
  "Buffer_from_binary (toString_binary P) = P
   \<and> (P \<noteq> [] \<and> test_wasm ident \<and> copies ident = None \<longrightarrow>
        transform p copies (toString_binary P) ident =
          Inr (Some (module_template (if ident \<in> set (syncFiles p) then js ''1'' else js ''0'')
                       (js ''null'') (quoted (toString_base64 P)))))
   \<and> (test_wasm ident \<and> fsStat h ident = Inr sz \<and> fsReadFile h ident = Inr P \<longrightarrow>
        (\<exists>copies'. load h p copies ident = Inr (copies', Some (toString_binary P)))
        \<and> (\<forall>copies' code. load h p copies ident = Inr (copies', Some code) \<longrightarrow>
              Buffer_from_binary code = P
              \<and> (P \<noteq> [] \<and> copies' ident = None \<longrightarrow>
                   transform p copies' code ident =
                     Inr (Some (module_template
                                  (if ident \<in> set (syncFiles p) then js ''1'' else js ''0'')
                                  (js ''null'') (quoted (toString_base64 P))))
                   \<and> load_then_transform h p copies ident =
                     Inr (copies',
                          Some (module_template
                                  (if ident \<in> set (syncFiles p) then js ''1'' else js ''0'')
                                  (js ''null'') (quoted (toString_base64 P)))))))"
proof (intro conjI impI allI)
  show "Buffer_from_binary (toString_binary P) = P" by (rule binary_round_trip)
next
  assume h: "P \<noteq> [] \<and> test_wasm ident \<and> copies ident = None"
  then have "toString_binary P \<noteq> []" by (simp add: toString_binary_Nil)
  from transform_inline [OF _ this, of ident copies p] h
  show "transform p copies (toString_binary P) ident =
        Inr (Some (module_template (if ident \<in> set (syncFiles p) then js ''1'' else js ''0'')
                     (js ''null'') (quoted (toString_base64 P))))"
    by (simp add: binary_round_trip)
next
  assume f: "test_wasm ident \<and> fsStat h ident = Inr sz \<and> fsReadFile h ident = Inr P"
  then show "\<exists>copies'. load h p copies ident = Inr (copies', Some (toString_binary P))"
    using load_matched [of ident h sz P p copies] by simp
next
  fix copies' code
  assume f: "test_wasm ident \<and> fsStat h ident = Inr sz \<and> fsReadFile h ident = Inr P"
    and l: "load h p copies ident = Inr (copies', Some code)"
  from f l have c: "code = toString_binary P"
    using load_matched [of ident h sz P p copies] by simp
  then show "Buffer_from_binary code = P" by (simp add: binary_round_trip)
  {
    assume i: "P \<noteq> [] \<and> copies' ident = None"
    then have "toString_binary P \<noteq> []" by (simp add: toString_binary_Nil)
    from transform_inline [OF _ this, of ident copies' p] f i c
    show t: "transform p copies' code ident =
        Inr (Some (module_template (if ident \<in> set (syncFiles p) then js ''1'' else js ''0'')
                     (js ''null'') (quoted (toString_base64 P))))"
      by (simp add: binary_round_trip)
    show "load_then_transform h p copies ident =
        Inr (copies',
             Some (module_template (if ident \<in> set (syncFiles p) then js ''1'' else js ''0'')
                     (js ''null'') (quoted (toString_base64 P))))"
      by (simp add: load_then_transform_def l t)
  }
qed

theorem binary_text_round_trip_witness:
  "Buffer_from_binary (toString_binary [0, 97, 115, 109, 255, 128]) = [0, 97, 115, 109, 255, 128]
   \<and> transform async_plugin initial_copies (toString_binary [0, 97, 115, 109]) (js ''/w/a.wasm'') =
       Inr (Some (module_template (js ''0'') (js ''null'') (quoted (js ''AGFzbQ==''))))
   \<and> load example_host async_plugin initial_copies (js ''/w/a.wasm'') =
       Inr (initial_copies, Some (toString_binary [0, 97, 115, 109]))
   \<and> Buffer_from_binary (toString_binary [0, 97, 115, 109]) = [0, 97, 115, 109]
   \<and> load_then_transform example_host async_plugin initial_copies (js ''/w/a.wasm'') =
       Inr (initial_copies,
            Some (module_template (js ''0'') (js ''null'') (quoted (js ''AGFzbQ==''))))"
proof -
  have a: "test_wasm (js ''/w/a.wasm'')"
    "fsStat example_host (js ''/w/a.wasm'') = Inr 4"
    "fsReadFile example_host (js ''/w/a.wasm'') = Inr [0, 97, 115, 109]"
    by (simp_all add: example_defs test_wasm_def js_def)
  have n: "[0, 97, 115, 109] \<noteq> ([] :: bytes)" "initial_copies (js ''/w/a.wasm'') = None"
    "js ''/w/a.wasm'' \<notin> set (syncFiles async_plugin)"
    by (simp_all add: initial_copies_def example_defs)
  have b64: "toString_base64 [0, 97, 115, 109] = js ''AGFzbQ==''"
    by (simp add: text_defs)
  note t = binary_text_round_trip [of "[0, 97, 115, 109]" "js ''/w/a.wasm''" initial_copies
      async_plugin example_host 4]
  from t have 1: "Buffer_from_binary (toString_binary [0, 97, 115, 109]) = [0, 97, 115, 109]"
    by blast
  from t a n have 2: "transform async_plugin initial_copies (toString_binary [0, 97, 115, 109])
      (js ''/w/a.wasm'') =
      Inr (Some (module_template (js ''0'') (js ''null'') (quoted (toString_base64 [0, 97, 115, 109]))))"
    by presburger
  from t a n example_load_a
  have 3: "load_then_transform example_host async_plugin initial_copies (js ''/w/a.wasm'') =
       Inr (initial_copies,
            Some (module_template (js ''0'') (js ''null'') (quoted (toString_base64 [0, 97, 115, 109]))))"
    by presburger
  have 0: "Buffer_from_binary (toString_binary [0, 97, 115, 109, 255, 128])
      = [0, 97, 115, 109, 255, 128]"
    using binary_text_round_trip [of "[0, 97, 115, 109, 255, 128]"] by blast
  from 0 1 2 3 example_load_a show ?thesis
    by (simp only: b64 simp_thms)
qed

subsection \<open>The decision table of \<open>transform\<close>\<close>

text \<open>
  C3, as the code has it: for every identifier ending in \<open>.wasm\<close>, a text body that is
  not empty and a registry of a build, \<open>transform\<close> emits the body that calls the bootstrap
  with \<open>(0, 'destination', null, imports)\<close> when the registry has a destination and the
  asset is not sync, and with \<open>(isSync as 0 or 1, null, 'base64', imports)\<close> when the
  registry has none, the base64 being that of the bytes decoded from the text body. One
  of the two cases always applies. For the empty text body \<open>transform\<close> returns \<open>null\<close>, no
  module body, whatever the identifier and the registry.
\<close>

theorem transform_decision_table:
  "(registry p copies \<and> test_wasm ident \<and> code \<noteq> [] \<longrightarrow>
      (copies ident = Some d \<and> ident \<notin> set (syncFiles p) \<longrightarrow>
          transform p copies code ident =
            Inr (Some (module_template (js ''0'') (quoted d) (js ''null''))))
    \<and> (copies ident = None \<longrightarrow>
          transform p copies code ident =
            Inr (Some (module_template (if ident \<in> set (syncFiles p) then js ''1'' else js ''0'')
                         (js ''null'') (quoted (toString_base64 (Buffer_from_binary code))))))
    \<and> (copies ident = None \<or> (copies ident \<noteq> None \<and> ident \<notin> set (syncFiles p))))
   \<and> transform p copies [] ident = Inr None"
proof (intro conjI impI)
  show "transform p copies [] ident = Inr None" by (rule transform_empty)
next
  assume a: "registry p copies \<and> test_wasm ident \<and> code \<noteq> []"
  then show "copies ident = None \<or> (copies ident \<noteq> None \<and> ident \<notin> set (syncFiles p))"
    using registry_not_sync [of p copies ident] by (cases "copies ident") auto
next
  assume a: "registry p copies \<and> test_wasm ident \<and> code \<noteq> []"
    and h: "copies ident = Some d \<and> ident \<notin> set (syncFiles p)"
  then have "d \<noteq> []" using registry_entry_nonempty [of p copies ident d] by blast
  from transform_copied [of ident code copies d p] a h this
  show "transform p copies code ident =
          Inr (Some (module_template (js ''0'') (quoted d) (js ''null'')))"
    by simp
next
  assume a: "registry p copies \<and> test_wasm ident \<and> code \<noteq> []"
    and "copies ident = None"
  then show "transform p copies code ident =
      Inr (Some (module_template (if ident \<in> set (syncFiles p) then js ''1'' else js ''0'')
                   (js ''null'') (quoted (toString_base64 (Buffer_from_binary code)))))"
    using transform_inline [of ident code copies p] by simp
qed

text \<open>
  Without the condition on the text body the statement is false: the file \<open>/w/empty.wasm\<close> has
  no bytes, \<open>load\<close> returns the empty string for it, and \<open>transform\<close> returns \<open>null\<close>, no
  module body.
\<close>

theorem transform_empty_body_counterexample:
  "test_wasm (js ''/w/empty.wasm'')
   \<and> load example_host async_plugin initial_copies (js ''/w/empty.wasm'') = Inr (initial_copies, Some [])
   \<and> transform async_plugin initial_copies [] (js ''/w/empty.wasm'') = Inr None"
  by (simp add: load_def transform_def test_wasm_def initial_copies_def
    Let_def example_defs text_defs)

theorem transform_decision_table_witness:
  "transform async_plugin
     (initial_copies(js ''/w/big.wasm'' \<mapsto> js ''/assets/c6006650182737e2.wasm''))
     (toString_binary [0, 97, 115, 109, 1, 0, 0, 0]) (js ''/w/big.wasm'') =
     Inr (Some (module_template (js ''0'') (quoted (js ''/assets/c6006650182737e2.wasm''))
                  (js ''null'')))
   \<and> transform async_plugin initial_copies (toString_binary [0, 97, 115, 109]) (js ''/w/a.wasm'') =
     Inr (Some (module_template (js ''0'') (js ''null'') (quoted (js ''AGFzbQ==''))))
   \<and> transform sync_plugin
     (initial_copies(js ''/w/big.wasm'' \<mapsto> js ''/assets/c6006650182737e2.wasm''))
     [] (js ''/w/big.wasm'') = Inr None"
proof -
  have r: "registry async_plugin
             (initial_copies(js ''/w/big.wasm'' \<mapsto> js ''/assets/c6006650182737e2.wasm''))"
    by (rule registry_load [OF registry_initial example_load_big])
  have big: "test_wasm (js ''/w/big.wasm'')" and a: "test_wasm (js ''/w/a.wasm'')"
    by (simp_all add: test_wasm_def js_def)
  have n1: "toString_binary [0, 97, 115, 109, 1, 0, 0, 0] \<noteq> []"
    and n2: "toString_binary [0, 97, 115, 109] \<noteq> []"
    by (simp_all add: toString_binary_def)
  have s: "js ''/w/big.wasm'' \<notin> set (syncFiles async_plugin)"
    "js ''/w/a.wasm'' \<notin> set (syncFiles async_plugin)"
    "(initial_copies(js ''/w/big.wasm'' \<mapsto> js ''/assets/c6006650182737e2.wasm''))
       (js ''/w/big.wasm'') = Some (js ''/assets/c6006650182737e2.wasm'')"
    "initial_copies (js ''/w/a.wasm'') = None"
    by (simp_all add: initial_copies_def example_defs)
  have b64: "toString_base64 (Buffer_from_binary (toString_binary [0, 97, 115, 109]))
      = js ''AGFzbQ==''"
    by (simp add: text_defs)
  from transform_decision_table [of async_plugin
      "initial_copies(js ''/w/big.wasm'' \<mapsto> js ''/assets/c6006650182737e2.wasm'')"
      "js ''/w/big.wasm''" "toString_binary [0, 97, 115, 109, 1, 0, 0, 0]"
      "js ''/assets/c6006650182737e2.wasm''"] r big n1 s
  have 1: "transform async_plugin
     (initial_copies(js ''/w/big.wasm'' \<mapsto> js ''/assets/c6006650182737e2.wasm''))
     (toString_binary [0, 97, 115, 109, 1, 0, 0, 0]) (js ''/w/big.wasm'') =
     Inr (Some (module_template (js ''0'') (quoted (js ''/assets/c6006650182737e2.wasm''))
                  (js ''null'')))"
    by blast
  from transform_decision_table [of async_plugin initial_copies "js ''/w/a.wasm''"
      "toString_binary [0, 97, 115, 109]" "[]"] registry_initial [of async_plugin] a n2 s
  have 2: "transform async_plugin initial_copies (toString_binary [0, 97, 115, 109])
      (js ''/w/a.wasm'') =
     Inr (Some (module_template (js ''0'') (js ''null'')
       (quoted (toString_base64 (Buffer_from_binary (toString_binary [0, 97, 115, 109]))))))"
    by presburger
  from transform_decision_table [of sync_plugin
      "initial_copies(js ''/w/big.wasm'' \<mapsto> js ''/assets/c6006650182737e2.wasm'')"
      "js ''/w/big.wasm''"]
  have 3: "transform sync_plugin
     (initial_copies(js ''/w/big.wasm'' \<mapsto> js ''/assets/c6006650182737e2.wasm''))
     [] (js ''/w/big.wasm'') = Inr None"
    by blast
  from 1 2 3 show ?thesis by (simp only: b64 simp_thms)
qed

subsection \<open>The size threshold in \<open>load\<close>\<close>

text \<open>
  C4: with \<open>maxFileSize = N > 0\<close> and an asset outside the sync set, \<open>load\<close> registers the
  asset exactly when its size is strictly greater than \<open>N\<close>; at size \<open>N\<close> the registry is
  unchanged and the asset is inlined.
\<close>

theorem threshold_is_strict:
  assumes "maxFileSize p = N" and "N > 0" and "ident \<notin> set (syncFiles p)"
    and "test_wasm ident" and "fsStat h ident = Inr sz" and "fsReadFile h ident = Inr buffer"
  shows "load h p copies ident =
           Inr (if int sz > N
                then copies(ident \<mapsto> publicPath p @ take 16 (sha1_hex h buffer) @ js ''.wasm'')
                else copies,
                Some (toString_binary buffer))
       \<and> (int sz = N \<and> copies ident = None \<and> buffer \<noteq> [] \<longrightarrow>
            load_then_transform h p copies ident =
              Inr (copies, Some (module_template (js ''0'') (js ''null'')
                                   (quoted (toString_base64 buffer)))))"
proof -
  have l: "load h p copies ident =
           Inr (if int sz > N
                then copies(ident \<mapsto> publicPath p @ take 16 (sha1_hex h buffer) @ js ''.wasm'')
                else copies,
                Some (toString_binary buffer))"
    using load_matched [OF assms(4,5,6), of p copies] assms(1,2,3) by auto
  have "load_then_transform h p copies ident =
          Inr (copies, Some (module_template (js ''0'') (js ''null'')
                               (quoted (toString_base64 buffer))))"
    if "int sz = N \<and> copies ident = None \<and> buffer \<noteq> []"
  proof -
    from that have "toString_binary buffer \<noteq> []" by (simp add: toString_binary_Nil)
    from transform_inline [OF assms(4) this, of copies p] that assms(3) l
    show ?thesis by (simp add: load_then_transform_def binary_round_trip)
  qed
  with l show ?thesis by blast
qed

theorem threshold_is_strict_witness:
  "load example_host async_plugin initial_copies (js ''/w/a.wasm'') =
     Inr (initial_copies, Some (toString_binary [0, 97, 115, 109]))
   \<and> load_then_transform example_host async_plugin initial_copies (js ''/w/a.wasm'') =
     Inr (initial_copies, Some (module_template (js ''0'') (js ''null'') (quoted (js ''AGFzbQ==''))))
   \<and> load example_host async_plugin initial_copies (js ''/w/big.wasm'') =
     Inr (initial_copies(js ''/w/big.wasm'' \<mapsto> js ''/assets/c6006650182737e2.wasm''),
          Some (toString_binary [0, 97, 115, 109, 1, 0, 0, 0]))"
proof -
  have m: "maxFileSize async_plugin = 4" "(4::int) > 0"
    by (simp_all add: example_defs)
  have a: "js ''/w/a.wasm'' \<notin> set (syncFiles async_plugin)"
    "test_wasm (js ''/w/a.wasm'')"
    "fsStat example_host (js ''/w/a.wasm'') = Inr 4"
    "fsReadFile example_host (js ''/w/a.wasm'') = Inr [0, 97, 115, 109]"
    by (simp_all add: example_defs test_wasm_def js_def)
  have b: "js ''/w/big.wasm'' \<notin> set (syncFiles async_plugin)"
    "test_wasm (js ''/w/big.wasm'')"
    "fsStat example_host (js ''/w/big.wasm'') = Inr 8"
    "fsReadFile example_host (js ''/w/big.wasm'') = Inr [0, 97, 115, 109, 1, 0, 0, 0]"
    by (simp_all add: example_defs test_wasm_def js_def)
  from threshold_is_strict [OF m a, of initial_copies]
    threshold_is_strict [OF m b, of initial_copies]
  show ?thesis
    by (simp add: initial_copies_def example_defs text_defs)
qed

text \<open>
  C5: with \<open>maxFileSize = 0\<close> every matched asset outside the sync set is registered,
  whatever its size; an asset in the sync set is never registered, whatever the threshold.
\<close>

theorem zero_threshold_copies_all_but_sync:
  assumes "test_wasm ident" and "fsStat h ident = Inr sz" and "fsReadFile h ident = Inr buffer"
  shows "(maxFileSize p = 0 \<and> ident \<notin> set (syncFiles p) \<longrightarrow>
            load h p copies ident =
              Inr (copies(ident \<mapsto> publicPath p @ take 16 (sha1_hex h buffer) @ js ''.wasm''),
                   Some (toString_binary buffer)))
       \<and> (ident \<in> set (syncFiles p) \<longrightarrow>
            load h p copies ident = Inr (copies, Some (toString_binary buffer)))"
  using load_matched [OF assms, of p copies] by simp

theorem zero_threshold_copies_all_but_sync_witness:
  "load example_host copy_all_plugin initial_copies (js ''/w/empty.wasm'') =
     Inr (initial_copies(js ''/w/empty.wasm'' \<mapsto> js ''/assets/da39a3ee5e6b4b0d.wasm''),
          Some (toString_binary []))
   \<and> load example_host copy_all_plugin initial_copies (js ''/w/a.wasm'') =
     Inr (initial_copies, Some (toString_binary [0, 97, 115, 109]))"
proof -
  have e: "test_wasm (js ''/w/empty.wasm'')"
    "fsStat example_host (js ''/w/empty.wasm'') = Inr 0"
    "fsReadFile example_host (js ''/w/empty.wasm'') = Inr []"
    by (simp_all add: example_defs test_wasm_def js_def)
  have a: "test_wasm (js ''/w/a.wasm'')"
    "fsStat example_host (js ''/w/a.wasm'') = Inr 4"
    "fsReadFile example_host (js ''/w/a.wasm'') = Inr [0, 97, 115, 109]"
    by (simp_all add: example_defs test_wasm_def js_def)
  from zero_threshold_copies_all_but_sync [OF e, of copy_all_plugin initial_copies]
    zero_threshold_copies_all_but_sync [OF a, of copy_all_plugin initial_copies]
  show ?thesis
    by (simp add: example_defs js_def)
qed

subsection \<open>The bootstrap\<close>

text \<open>
  C6: whether the bootstrap instantiates or only compiles depends on nothing but
  \<open>imports\<close>: given, the call is an instantiation, not given, a compilation, whatever the
  source and whether streamed. The four asynchronous cases (file path under Node, file
  path with \<open>fetch\<close>, inline payload under Node, inline payload elsewhere) all return
  the result of that one rule, on the same \<open>imports\<close>.
\<close>

theorem instantiate_or_compile_by_imports:
  "api_operation (instantiateOrCompile source imports stream) =
     (if imports = None then Compilation else Instantiation)
   \<and> (filepath = Some fp \<and> fp \<noteq> [] \<and> isNode rt \<and> rt_readFile rt fp = Inr buffer \<longrightarrow>
        loadWasmModule rt sync filepath src imports =
          Inr (New_Promise (Resolved (instantiateOrCompile (Buffer buffer) imports False))))
   \<and> (filepath = Some fp \<and> fp \<noteq> [] \<and> \<not> isNode rt \<longrightarrow>
        loadWasmModule rt sync filepath src imports =
          Inr (Promise (instantiateOrCompile (Fetch fp) imports True)))
   \<and> (\<not> truthy_string filepath \<and> \<not> truthy_number sync \<and> isNode rt
        \<and> rt_Buffer_from_base64 rt src = Inr buf \<longrightarrow>
        loadWasmModule rt sync filepath src imports =
          Inr (Promise (instantiateOrCompile (Buffer buf) imports False)))
   \<and> (\<not> truthy_string filepath \<and> \<not> truthy_number sync \<and> \<not> isNode rt
        \<and> rt_atob rt src = Inr raw \<longrightarrow>
        loadWasmModule rt sync filepath src imports =
          Inr (Promise (instantiateOrCompile (Buffer (map ucast raw)) imports False)))"
proof (intro conjI impI)
  show "api_operation (instantiateOrCompile source imports stream) =
     (if imports = None then Compilation else Instantiation)"
    by (cases "imports") (simp_all add: instantiateOrCompile_def)
next
  assume "filepath = Some fp \<and> fp \<noteq> [] \<and> isNode rt \<and> rt_readFile rt fp = Inr buffer"
  then show "loadWasmModule rt sync filepath src imports =
          Inr (New_Promise (Resolved (instantiateOrCompile (Buffer buffer) imports False)))"
    by (simp add: loadWasmModule_def truthy_string_def readFile_callback_ok)
next
  assume "filepath = Some fp \<and> fp \<noteq> [] \<and> \<not> isNode rt"
  then show "loadWasmModule rt sync filepath src imports =
          Inr (Promise (instantiateOrCompile (Fetch fp) imports True))"
    by (simp add: loadWasmModule_def truthy_string_def)
next
  assume "\<not> truthy_string filepath \<and> \<not> truthy_number sync \<and> isNode rt
        \<and> rt_Buffer_from_base64 rt src = Inr buf"
  then show "loadWasmModule rt sync filepath src imports =
          Inr (Promise (instantiateOrCompile (Buffer buf) imports False))"
    by (simp add: loadWasmModule_def decode_src_node)
next
  assume "\<not> truthy_string filepath \<and> \<not> truthy_number sync \<and> \<not> isNode rt
        \<and> rt_atob rt src = Inr raw"
  then show "loadWasmModule rt sync filepath src imports =
          Inr (Promise (instantiateOrCompile (Buffer (map ucast raw)) imports False))"
    by (simp add: loadWasmModule_def decode_src_atob)
qed

theorem instantiate_or_compile_by_imports_witness:
  "loadWasmModule (example_runtime True) 0 (Some (js ''/assets/c6006650182737e2.wasm'')) None
     (Some (7::nat)) =
     Inr (New_Promise (Resolved (Instantiate (Buffer [0, 97, 115, 109, 1, 0, 0, 0]) 7)))
   \<and> loadWasmModule (example_runtime False) 0 (Some (js ''/assets/c6006650182737e2.wasm'')) None
     (None :: nat option) =
     Inr (Promise (CompileStreaming (Fetch (js ''/assets/c6006650182737e2.wasm''))))
   \<and> loadWasmModule (example_runtime True) 0 None (Some (js ''AGFzbQ=='')) (Some (7::nat)) =
     Inr (Promise (Instantiate (Buffer [0, 97, 115, 109]) 7))
   \<and> loadWasmModule (example_runtime False) 0 None (Some (js ''AGFzbQ=='')) (None :: nat option) =
     Inr (Promise (Compile (Buffer [0, 97, 115, 109])))"
  using
    instantiate_or_compile_by_imports [of Undefined "Some (7::nat)" False
      "Some (js ''/assets/c6006650182737e2.wasm'')" "js ''/assets/c6006650182737e2.wasm''"
      "example_runtime True" "[0, 97, 115, 109, 1, 0, 0, 0]" 0 None "[]" "[]"]
    instantiate_or_compile_by_imports [of Undefined "None :: nat option" False
      "Some (js ''/assets/c6006650182737e2.wasm'')" "js ''/assets/c6006650182737e2.wasm''"
      "example_runtime False" "[]" 0 None "[]" "[]"]
    instantiate_or_compile_by_imports [of Undefined "Some (7::nat)" False
      None "[]" "example_runtime True" "[]" 0 "Some (js ''AGFzbQ=='')" "[0, 97, 115, 109]" "[]"]
    instantiate_or_compile_by_imports [of Undefined "None :: nat option" False
      None "[]" "example_runtime False" "[]" 0 "Some (js ''AGFzbQ=='')" "[]" "[0, 97, 115, 109]"]
  by (simp add: runtime_defs instantiateOrCompile_def)

text \<open>
  C7: without a file path and with the payload decoded to \<open>buf\<close> (by \<open>Buffer.from\<close> under
  Node, by \<open>atob\<close> and the character code loop elsewhere), a truthy \<open>sync\<close> makes the
  bootstrap return a value and no promise: the instance of the module of \<open>buf\<close> bound to
  \<open>imports\<close> when they are given, the bare module otherwise. A falsy \<open>sync\<close> makes it return
  the promise of the rule of C6 on the buffer, not streamed.
\<close>

theorem inline_sync_returns_value:
  assumes "\<not> truthy_string filepath"
    and "(isNode rt \<and> rt_Buffer_from_base64 rt src = Inr buf)
         \<or> (\<not> isNode rt \<and> rt_atob rt src = Inr raw \<and> buf = map ucast raw)"
  shows "(truthy_number sync \<longrightarrow>
            loadWasmModule rt sync filepath src imports =
              Inr (Value (case imports of
                            Some i \<Rightarrow> New_Instance (New_Module buf) i
                          | None \<Rightarrow> Bare (New_Module buf))))
       \<and> (\<not> truthy_number sync \<longrightarrow>
            loadWasmModule rt sync filepath src imports =
              Inr (Promise (instantiateOrCompile (Buffer buf) imports False)))"
proof -
  have "decode_src rt src = Inr buf"
    using assms(2) by (auto simp: decode_src_node decode_src_atob)
  with assms(1) show ?thesis
    by (simp add: loadWasmModule_def Let_def)
qed

theorem inline_sync_returns_value_witness:
  "loadWasmModule (example_runtime True) 1 None (Some (js ''AGFzbQ=='')) (Some (7::nat)) =
     Inr (Value (New_Instance (New_Module [0, 97, 115, 109]) 7))
   \<and> loadWasmModule (example_runtime False) 1 None (Some (js ''AGFzbQ=='')) (None :: nat option) =
     Inr (Value (Bare (New_Module [0, 97, 115, 109])))
   \<and> loadWasmModule (example_runtime False) 0 None (Some (js ''AGFzbQ=='')) (Some (7::nat)) =
     Inr (Promise (Instantiate (Buffer [0, 97, 115, 109]) 7))"
proof -
  have f: "\<not> truthy_string None" by (simp add: truthy_string_def)
  have n: "(isNode (example_runtime True)
            \<and> rt_Buffer_from_base64 (example_runtime True) (Some (js ''AGFzbQ=='')) = Inr [0, 97, 115, 109])
         \<or> (\<not> isNode (example_runtime True)
            \<and> rt_atob (example_runtime True) (Some (js ''AGFzbQ=='')) = Inr [0, 97, 115, 109]
            \<and> [0, 97, 115, 109] = map ucast [0, 97, 115, 109 :: 16 word])"
    by (simp add: runtime_defs)
  have b: "(isNode (example_runtime False)
            \<and> rt_Buffer_from_base64 (example_runtime False) (Some (js ''AGFzbQ=='')) = Inr [0, 97, 115, 109])
         \<or> (\<not> isNode (example_runtime False)
            \<and> rt_atob (example_runtime False) (Some (js ''AGFzbQ=='')) = Inr [0, 97, 115, 109]
            \<and> [0, 97, 115, 109] = map ucast [0, 97, 115, 109 :: 16 word])"
    by (simp add: runtime_defs)
  from inline_sync_returns_value [OF f n, of 1 "Some (7::nat)"]
    inline_sync_returns_value [OF f b, of 1 "None :: nat option"]
    inline_sync_returns_value [OF f b, of 0 "Some (7::nat)"]
  show ?thesis
    by (simp add: truthy_number_def instantiateOrCompile_def)
qed

text \<open>
  C8: under Node and with a file path, the bootstrap returns a new promise. It is rejected
  with the error of the read when the read fails (the call of \<open>resolve\<close> that follows
  changes nothing), and resolved with the result of the rule of C6 on the buffer read, not
  streamed, when the read succeeds.
\<close>

theorem node_file_promise:
  assumes "filepath = Some fp" and "fp \<noteq> []" and "isNode rt"
  shows "(rt_readFile rt fp = Inl e \<longrightarrow>
            loadWasmModule rt sync filepath src imports = Inr (New_Promise (Rejected e)))
       \<and> (rt_readFile rt fp = Inr buffer \<longrightarrow>
            loadWasmModule rt sync filepath src imports =
              Inr (New_Promise (Resolved (instantiateOrCompile (Buffer buffer) imports False))))"
  using assms
  by (simp add: loadWasmModule_def truthy_string_def readFile_callback_ok
    readFile_callback_error)

theorem node_file_promise_witness:
  "loadWasmModule (example_runtime True) 0 (Some (js ''/assets/missing.wasm'')) None
     (Some (7::nat)) = Inr (New_Promise (Rejected (HostError (js ''ENOENT''))))
   \<and> loadWasmModule (example_runtime True) 0 (Some (js ''/assets/c6006650182737e2.wasm'')) None
     (None :: nat option) =
     Inr (New_Promise (Resolved (Compile (Buffer [0, 97, 115, 109, 1, 0, 0, 0]))))"
proof -
  have n: "isNode (example_runtime True)" by (simp add: example_runtime_def)
  have a: "js ''/assets/missing.wasm'' \<noteq> []" "js ''/assets/c6006650182737e2.wasm'' \<noteq> []"
    by (simp_all add: js_def)
  from node_file_promise [OF refl a(1) n, of "HostError (js ''ENOENT'')" 0 None
      "Some (7::nat)" "[]"]
    node_file_promise [OF refl a(2) n, of "HostError []" 0 None "None :: nat option"
      "[0, 97, 115, 109, 1, 0, 0, 0]"]
  show ?thesis
    by (simp add: runtime_defs instantiateOrCompile_def)
qed

subsection \<open>The options\<close>

text \<open>
  C9: \<open>wasm\<close> reads the threshold from \<open>maxFileSize\<close> and from nothing else: a
  \<open>maxFileSize\<close> that is given is the threshold, and with none the threshold is 14336.
  Setting \<open>limit\<close> changes nothing of the plugin, so that with \<open>limit\<close> alone \<open>load\<close>
  registers a matched asset exactly when it is larger than 14336 bytes and not in the sync
  set, and with a \<open>maxFileSize\<close> it judges the asset against that one.
\<close>

theorem limit_option_is_ignored:
  "wasm h (opts\<lparr>opt_limit := l\<rparr>) = wasm h opts
   \<and> maxFileSize (wasm h (opts\<lparr>opt_maxFileSize := Some m, opt_limit := l\<rparr>)) = m
   \<and> maxFileSize (wasm h (opts\<lparr>opt_maxFileSize := None, opt_limit := l\<rparr>)) = 14336
   \<and> (opt_maxFileSize opts = None \<and> test_wasm ident \<and> fsStat h ident = Inr sz
        \<and> fsReadFile h ident = Inr buffer \<longrightarrow>
        maxFileSize (wasm h (opts\<lparr>opt_limit := l\<rparr>)) = 14336
        \<and> load h (wasm h (opts\<lparr>opt_limit := l\<rparr>)) copies ident =
            Inr (if int sz > 14336 \<and> ident \<notin> set (syncFiles (wasm h opts))
                 then copies(ident \<mapsto> publicPath (wasm h opts) @ take 16 (sha1_hex h buffer)
                                       @ js ''.wasm'')
                 else copies,
                 Some (toString_binary buffer)))
   \<and> (opt_maxFileSize opts = Some m \<and> test_wasm ident \<and> fsStat h ident = Inr sz
        \<and> fsReadFile h ident = Inr buffer \<longrightarrow>
        load h (wasm h (opts\<lparr>opt_limit := l\<rparr>)) copies ident =
            Inr (if (m = 0 \<or> int sz > m) \<and> ident \<notin> set (syncFiles (wasm h opts))
                 then copies(ident \<mapsto> publicPath (wasm h opts) @ take 16 (sha1_hex h buffer)
                                       @ js ''.wasm'')
                 else copies,
                 Some (toString_binary buffer)))"
proof (intro conjI impI)
  show w: "wasm h (opts\<lparr>opt_limit := l\<rparr>) = wasm h opts"
    by (simp add: wasm_def)
  show "maxFileSize (wasm h (opts\<lparr>opt_maxFileSize := Some m, opt_limit := l\<rparr>)) = m"
    by (simp add: wasm_def)
  show "maxFileSize (wasm h (opts\<lparr>opt_maxFileSize := None, opt_limit := l\<rparr>)) = 14336"
    by (simp add: wasm_def)
  {
    assume a: "opt_maxFileSize opts = None \<and> test_wasm ident \<and> fsStat h ident = Inr sz
        \<and> fsReadFile h ident = Inr buffer"
    then have m: "maxFileSize (wasm h opts) = 14336" by (simp add: wasm_def)
    then show "maxFileSize (wasm h (opts\<lparr>opt_limit := l\<rparr>)) = 14336" by (simp add: w)
    show "load h (wasm h (opts\<lparr>opt_limit := l\<rparr>)) copies ident =
            Inr (if int sz > 14336 \<and> ident \<notin> set (syncFiles (wasm h opts))
                 then copies(ident \<mapsto> publicPath (wasm h opts) @ take 16 (sha1_hex h buffer)
                                       @ js ''.wasm'')
                 else copies,
                 Some (toString_binary buffer))"
      using load_matched [of ident h sz buffer "wasm h opts" copies] a
      by (simp add: w m)
  }
  {
    assume a: "opt_maxFileSize opts = Some m \<and> test_wasm ident \<and> fsStat h ident = Inr sz
        \<and> fsReadFile h ident = Inr buffer"
    then have m: "maxFileSize (wasm h opts) = m" by (simp add: wasm_def)
    show "load h (wasm h (opts\<lparr>opt_limit := l\<rparr>)) copies ident =
            Inr (if (m = 0 \<or> int sz > m) \<and> ident \<notin> set (syncFiles (wasm h opts))
                 then copies(ident \<mapsto> publicPath (wasm h opts) @ take 16 (sha1_hex h buffer)
                                       @ js ''.wasm'')
                 else copies,
                 Some (toString_binary buffer))"
      using load_matched [of ident h sz buffer "wasm h opts" copies] a
      by (simp add: w m)
  }
qed

theorem limit_option_is_ignored_witness:
  "wasm example_host (no_options\<lparr>opt_limit := Some 2\<rparr>) = wasm example_host no_options
   \<and> maxFileSize (wasm example_host (no_options\<lparr>opt_maxFileSize := Some 4, opt_limit := Some 2\<rparr>)) = 4
   \<and> maxFileSize (wasm example_host (no_options\<lparr>opt_maxFileSize := None, opt_limit := Some 2\<rparr>)) = 14336
   \<and> maxFileSize (wasm example_host (no_options\<lparr>opt_limit := Some 2\<rparr>)) = 14336
   \<and> load example_host (wasm example_host (no_options\<lparr>opt_limit := Some 2\<rparr>))
        initial_copies (js ''/w/big.wasm'') =
       Inr (initial_copies, Some (toString_binary [0, 97, 115, 109, 1, 0, 0, 0]))"
proof -
  have a: "opt_maxFileSize no_options = None"
    by (simp add: no_options_def)
  have b: "test_wasm (js ''/w/big.wasm'')"
    "fsStat example_host (js ''/w/big.wasm'') = Inr 8"
    "fsReadFile example_host (js ''/w/big.wasm'') = Inr [0, 97, 115, 109, 1, 0, 0, 0]"
    by (simp_all add: example_defs test_wasm_def js_def)
  have c: "(int 8 > 14336 \<and> Q) = False" for Q by simp
  note t = limit_option_is_ignored [where h = example_host and opts = no_options
      and l = "Some 2" and m = 4 and ident = "js ''/w/big.wasm''" and sz = 8
      and buffer = "[0, 97, 115, 109, 1, 0, 0, 0]" and copies = initial_copies,
      simplified c if_False]
  from t a b show ?thesis by blast
qed

subsection \<open>The registry and the sync set\<close>

text \<open>
  C10: in the registry of a build no identifier of the sync set has an entry, so that
  \<open>transform\<close> never raises the sync conflict error (nor any other) on such a registry.
\<close>

theorem sync_conflict_unreachable:
  assumes "registry p copies"
  shows "\<not> (copies ident \<noteq> None \<and> ident \<in> set (syncFiles p))
       \<and> transform p copies code ident \<noteq> Inl e"
proof -
  have inv: "\<not> (copies ident \<noteq> None \<and> ident \<in> set (syncFiles p))"
    using registry_not_sync [OF assms] by auto
  then have "transform p copies code ident \<noteq> Inl e"
    by (auto simp: transform_def Let_def indexOf_absent split: option.splits if_splits)
  with inv show ?thesis by simp
qed

theorem sync_conflict_unreachable_witness:
  "\<not> (initial_copies (js ''/w/big.wasm'') \<noteq> None
       \<and> js ''/w/big.wasm'' \<in> set (syncFiles sync_plugin))
   \<and> transform sync_plugin initial_copies (toString_binary [0, 97, 115, 109, 1, 0, 0, 0])
       (js ''/w/big.wasm'') \<noteq> Inl (PluginError conflict_message)"
proof -
  have r: "registry sync_plugin initial_copies"
    by (rule registry_load [OF registry_initial example_load_sync_big])
  from sync_conflict_unreachable [OF r] show ?thesis by blast
qed

end
